theory Spec2Isabelle
  imports Main
begin

section \<open>Values, errors and the DBAPI driver\<close>

text \<open>
  Python values that travel through the query layer: statement parameters, the DSN and
  connect arguments, and the cells of a fetched row.
\<close>

datatype pyval = PNone | PInt int | PStr string | PBool bool

text \<open>
  The exceptions of \<^verbatim>\<open>breezeblocks.exceptions\<close> and the built-in ones the modelled code
  can raise. \<open>DriverError\<close> stands for any exception raised inside the DBAPI driver.
\<close>

datatype error =
    QueryError string
  | MissingModuleError
  | UnsupportedModuleError
  | AttributeError string
  | KeyError string
  | TypeError string
  | ValueError string
  | ParameterError string
  | DriverError string

type_synonym conn = nat

text \<open>
  A cursor is opaque to the query layer: it belongs to a connection and carries whatever
  the driver recorded when a statement was executed on it.
\<close>

datatype cursor = Cursor conn "(string \<times> pyval list) list"

text \<open>
  A DBAPI 2.0 module: its declared \<^verbatim>\<open>paramstyle\<close>, its \<^verbatim>\<open>connect\<close> function, and the
  methods of the connection and cursor objects it hands out. Every driver call may raise.
\<close>

record dbapi_module =
  paramstyle :: string
  dbapi_connect :: "pyval list \<Rightarrow> (string \<times> pyval) list \<Rightarrow> error + conn"
  conn_cursor :: "conn \<Rightarrow> error + cursor"
  cur_execute :: "cursor \<Rightarrow> string \<Rightarrow> pyval list \<Rightarrow> error + cursor"
  cur_fetchall :: "cursor \<Rightarrow> error + pyval list list"
  cur_close :: "cursor \<Rightarrow> error + unit"

section \<open>The connection pool\<close>

text \<open>
  Modelled from the spec: the connection pool (\<^verbatim>\<open>pool.py\<close>) is not among the sources.
  The pool holds its idle connections and counts the checked-out ones; \<open>minconn\<close>
  connections are opened eagerly at construction, and a failure to open one propagates.
\<close>

record pool =
  pool_dbapi :: dbapi_module
  pool_args :: "pyval list"
  pool_kwargs :: "(string \<times> pyval) list"
  pool_minconn :: int
  pool_maxconn :: int
  pool_idle :: "conn list"
  pool_checked_out :: nat
  pool_closing :: bool

text \<open>
  Modelled from the spec: the eager opening of the standby connections; the first failure
  of the driver's \<^verbatim>\<open>connect\<close> ends it.
\<close>

fun open_conns :: "dbapi_module \<Rightarrow> pyval list \<Rightarrow> (string \<times> pyval) list \<Rightarrow> nat \<Rightarrow> error + conn list" where
  "open_conns m args kwargs 0 = Inr []"
| "open_conns m args kwargs (Suc n) =
     (case dbapi_connect m args kwargs of
        Inl e \<Rightarrow> Inl e
      | Inr c \<Rightarrow> (case open_conns m args kwargs n of
                   Inl e \<Rightarrow> Inl e
                 | Inr cs \<Rightarrow> Inr (c # cs)))"

text \<open>
  Modelled from the spec: the pool's constructor, called by \<^verbatim>\<open>Database.__init__\<close> as
  \<^verbatim>\<open>Pool(dbapi, minconn, maxconn, *connect_args, **connect_kwargs)\<close>.
\<close>

definition Pool :: "dbapi_module \<Rightarrow> int \<Rightarrow> int \<Rightarrow> pyval list \<Rightarrow> (string \<times> pyval) list \<Rightarrow> error + pool" where
  "Pool m minconn maxconn args kwargs =
     (case open_conns m args kwargs (nat minconn) of
        Inl e \<Rightarrow> Inl e
      | Inr cs \<Rightarrow> Inr \<lparr>pool_dbapi = m, pool_args = args, pool_kwargs = kwargs,
                       pool_minconn = minconn, pool_maxconn = maxconn,
                       pool_idle = cs, pool_checked_out = 0, pool_closing = False\<rparr>)"

text \<open>
  Modelled from the spec: \<^verbatim>\<open>pool.get()\<close> reuses an idle connection, or opens a new one
  while the pool is below its maximum, or blocks (single caller: for ever) when it is
  saturated. A failure to open a connection propagates to the caller.
\<close>

datatype checkout = Blocks | Fails error | Handle conn pool

definition pool_get :: "pool \<Rightarrow> checkout" where
  "pool_get p =
     (case pool_idle p of
        c # cs \<Rightarrow> Handle c (p\<lparr>pool_idle := cs, pool_checked_out := Suc (pool_checked_out p)\<rparr>)
      | [] \<Rightarrow>
          if int (pool_checked_out p) < pool_maxconn p
          then (case dbapi_connect (pool_dbapi p) (pool_args p) (pool_kwargs p) of
                  Inl e \<Rightarrow> Fails e
                | Inr c \<Rightarrow> Handle c (p\<lparr>pool_checked_out := Suc (pool_checked_out p)\<rparr>))
          else Blocks)"

text \<open>
  Modelled from the spec: on scope exit the connection goes back to the idle set, unless
  the pool is shutting down, in which case it is discarded. The handle never swallows the
  exception that ended the scope.
\<close>

definition pool_exit :: "pool \<Rightarrow> conn \<Rightarrow> pool" where
  "pool_exit p c =
     (if pool_closing p
      then p\<lparr>pool_checked_out := pool_checked_out p - 1\<rparr>
      else p\<lparr>pool_idle := c # pool_idle p, pool_checked_out := pool_checked_out p - 1\<rparr>)"

section \<open>The database facade (\<^verbatim>\<open>database.py\<close>)\<close>

text \<open>
  A \<^verbatim>\<open>Database\<close> instance is its attribute dictionary: \<^verbatim>\<open>__init__\<close> assigns attributes one
  after the other, and a method that reads an attribute nobody assigned raises
  \<^verbatim>\<open>AttributeError\<close>.
\<close>

datatype attr =
    A_val pyval
  | A_dbapi "dbapi_module option"
  | A_str string
  | A_pool pool
  | A_args "pyval list"
  | A_kwargs "(string \<times> pyval) list"

type_synonym database = "string \<rightharpoonup> attr"

definition getattr :: "database \<Rightarrow> string \<Rightarrow> error + attr" where
  "getattr self name = (case self name of None \<Rightarrow> Inl (AttributeError name) | Some a \<Rightarrow> Inr a)"

definition get_param_marker :: "dbapi_module \<Rightarrow> error + string" where
  "get_param_marker dbapi =
     (if paramstyle dbapi = ''qmark'' then Inr ''?''
      else if paramstyle dbapi = ''format'' then Inr ''%s''
      else if paramstyle dbapi = ''pyformat'' then Inr ''%s''
      else Inl UnsupportedModuleError)"

definition Database_init ::
  "pyval list option \<Rightarrow> (string \<times> pyval) list option \<Rightarrow> dbapi_module option \<Rightarrow> pyval
     \<Rightarrow> int \<Rightarrow> int \<Rightarrow> error + database" where
  "Database_init connect_args connect_kwargs dbapi_module dsn minconn maxconn =
     (let self = [''_dsn'' \<mapsto> A_val dsn, ''_dbapi'' \<mapsto> A_dbapi dbapi_module] in
      case dbapi_module of
        None \<Rightarrow> Inl MissingModuleError
      | Some dbapi \<Rightarrow>
          (case get_param_marker dbapi of
             Inl e \<Rightarrow> Inl e
           | Inr marker \<Rightarrow>
               let self = self(''_param_marker'' \<mapsto> A_str marker);
                   connect_args = (case connect_args of Some a \<Rightarrow> a | None \<Rightarrow> []);
                   connect_kwargs = (case connect_kwargs of Some k \<Rightarrow> k | None \<Rightarrow> []);
                   connect_args = (if dsn \<noteq> PNone then dsn # connect_args else connect_args)
               in (case Pool dbapi minconn maxconn connect_args connect_kwargs of
                     Inl e \<Rightarrow> Inl e
                   | Inr p \<Rightarrow> Inr (self(''pool'' \<mapsto> A_pool p)))))"

text \<open>
  \<^verbatim>\<open>Database.connect\<close>: Python evaluates \<^verbatim>\<open>self._dbapi.connect\<close>, then \<^verbatim>\<open>self._dsn\<close>, then
  \<^verbatim>\<open>self._connection_args\<close> and \<^verbatim>\<open>self._connection_kwargs\<close>, and only then calls.
\<close>

definition connect_call :: "attr \<Rightarrow> attr \<Rightarrow> attr \<Rightarrow> attr \<Rightarrow> error + conn" where
  "connect_call dbapi dsn args kwargs =
     (case dbapi of
        A_dbapi None \<Rightarrow> Inl (AttributeError ''connect'')
      | A_dbapi (Some m) \<Rightarrow>
          (case (dsn, args, kwargs) of
             (A_val d, A_args a, A_kwargs k) \<Rightarrow> dbapi_connect m (d # a) k
           | _ \<Rightarrow> Inl (TypeError ''connect''))
      | _ \<Rightarrow> Inl (AttributeError ''connect''))"

definition connect :: "database \<Rightarrow> error + conn" where
  "connect self =
     (case getattr self ''_dbapi'' of
        Inl e \<Rightarrow> Inl e
      | Inr dbapi \<Rightarrow>
          (case getattr self ''_dsn'' of
             Inl e \<Rightarrow> Inl e
           | Inr dsn \<Rightarrow>
               (case getattr self ''_connection_args'' of
                  Inl e \<Rightarrow> Inl e
                | Inr args \<Rightarrow>
                    (case getattr self ''_connection_kwargs'' of
                       Inl e \<Rightarrow> Inl e
                     | Inr kwargs \<Rightarrow> connect_call dbapi dsn args kwargs))))"

section \<open>Expressions and the query specification\<close>

text \<open>
  A table expression is referred to by name, a finalized query by its object identity.
\<close>

datatype table_ref = TableRef string | QueryRef nat

text \<open>
  Modelled from the spec: the expression classes (\<^verbatim>\<open>column.py\<close>, \<^verbatim>\<open>expressions.py\<close>) are not
  among the sources. \<open>OtherExpr\<close> stands for any of them and carries what its methods
  \<^verbatim>\<open>_get_name\<close>, \<^verbatim>\<open>_get_select_field\<close>, \<^verbatim>\<open>_get_ref_field\<close> and \<^verbatim>\<open>_get_tables\<close> return.
  \<open>QueryColumn column query\<close> is the class \<^verbatim>\<open>_QueryColumn\<close> of \<^verbatim>\<open>query.py\<close>.
\<close>

datatype expr =
    OtherExpr string string string "table_ref list"
  | QueryColumn expr nat

fun get_name :: "expr \<Rightarrow> string" where
  "get_name (OtherExpr name select_field ref_field tables) = name"
| "get_name (QueryColumn column query) = get_name column"

fun get_ref_field :: "expr \<Rightarrow> string" where
  "get_ref_field (OtherExpr name select_field ref_field tables) = ref_field"
| "get_ref_field (QueryColumn column query) = get_name (QueryColumn column query)"

fun get_select_field :: "expr \<Rightarrow> string" where
  "get_select_field (OtherExpr name select_field ref_field tables) = select_field"
| "get_select_field (QueryColumn column query) = get_name (QueryColumn column query)"

fun get_tables :: "expr \<Rightarrow> table_ref list" where
  "get_tables (OtherExpr name select_field ref_field tables) = tables"
| "get_tables (QueryColumn column query) = [QueryRef query]"

text \<open>
  Modelled from the spec: the frozen query specification (\<^verbatim>\<open>QuerySpec\<close>) is not among the
  sources; \<^verbatim>\<open>query.py\<close> reads its \<^verbatim>\<open>select_exprs\<close>. \<open>named_params\<close> maps each user-supplied
  parameter name to its slot in the parameter list.
\<close>

record query_spec =
  select_exprs :: "expr list"
  from_expr :: table_ref
  where_conditions :: "expr list"
  group_exprs :: "expr list"
  having_conditions :: "expr list"
  order_exprs :: "(expr \<times> bool \<times> string option) list"
  is_distinct :: bool
  named_params :: "(string \<times> nat) list"

text \<open>
  Modelled from the spec: \<^verbatim>\<open>ColumnCollection\<close> is not among the sources. It keeps the columns
  in order, \<^verbatim>\<open>getNames\<close> lists their names in that order, and indexing by a name looks the
  column up in a dictionary built from the columns in order.
\<close>

record column_collection =
  cc_query :: nat
  cc_columns :: "expr list"

text \<open>Modelled from the spec: \<^verbatim>\<open>ColumnCollection.getNames\<close>.\<close>

definition getNames :: "column_collection \<Rightarrow> string list" where
  "getNames cc = map get_name (cc_columns cc)"

text \<open>Modelled from the spec: the by-name dictionary; a later column of the same name wins.\<close>

definition columns_by_name :: "expr list \<Rightarrow> (string \<rightharpoonup> expr)" where
  "columns_by_name cols = fold (\<lambda>c m. m(get_name c \<mapsto> c)) cols Map.empty"

text \<open>Modelled from the spec: \<^verbatim>\<open>ColumnCollection.__getitem__\<close> for a name; an unknown name raises.\<close>

definition getitem :: "column_collection \<Rightarrow> string \<Rightarrow> error + expr" where
  "getitem cc name =
     (case columns_by_name (cc_columns cc) name of
        None \<Rightarrow> Inl (KeyError name)
      | Some c \<Rightarrow> Inr c)"

text \<open>\<^verbatim>\<open>_QueryColumnCollection.__init__\<close> of \<^verbatim>\<open>query.py\<close>: one \<^verbatim>\<open>_QueryColumn\<close> per selected expression.\<close>

definition QueryColumnCollection_init :: "nat \<Rightarrow> query_spec \<Rightarrow> column_collection" where
  "QueryColumnCollection_init query spec =
     \<lparr>cc_query = query, cc_columns = map (\<lambda>e. QueryColumn e query) (select_exprs spec)\<rparr>"

section \<open>Decimal rendering and \<^verbatim>\<open>collections.namedtuple\<close>\<close>

text \<open>\<^verbatim>\<open>str\<close> of a Python integer.\<close>

definition digit_char :: "nat \<Rightarrow> char" where
  "digit_char d = ''0123456789'' ! d"

function str_nat :: "nat \<Rightarrow> string" where
  "str_nat n = (if n < 10 then [digit_char n] else str_nat (n div 10) @ [digit_char (n mod 10)])"
  by pat_completeness auto
termination
  by (relation "measure (\<lambda>n. n)") auto

definition str_int :: "int \<Rightarrow> string" where
  "str_int i = (if i < 0 then CHR ''-'' # str_nat (nat (- i)) else str_nat (nat i))"

text \<open>Reading a decimal numeral back (\<^verbatim>\<open>int\<close> of a digit string), the inverse of \<open>str_nat\<close>.\<close>

definition digit_val :: "char \<Rightarrow> nat" where
  "digit_val c = length (takeWhile (\<lambda>x. x \<noteq> c) ''0123456789'')"

definition nat_of_digits :: "string \<Rightarrow> nat" where
  "nat_of_digits s = foldl (\<lambda>a c. 10 * a + digit_val c) 0 s"

text \<open>
  \<^verbatim>\<open>str.isidentifier\<close> and \<^verbatim>\<open>keyword.iskeyword\<close>. A string is the list of its UTF-8 bytes. A
  string of ASCII characters is an identifier when it starts with a letter or an underscore
  and goes on with letters, digits and underscores. For a string with a character outside
  ASCII, Python decides by the Unicode tables of the interpreter (\<^verbatim>\<open>XID_Start\<close>,
  \<^verbatim>\<open>XID_Continue\<close>), which are no part of the repository: \<open>xid\<close> is that verdict.
\<close>

definition is_ascii :: "char \<Rightarrow> bool" where
  "is_ascii c = (\<not> digit7 c)"

definition ident_start :: "char \<Rightarrow> bool" where
  "ident_start c = (c \<in> set ''_abcdefghijklmnopqrstuvwxyzABCDEFGHIJKLMNOPQRSTUVWXYZ'')"

definition ident_char :: "char \<Rightarrow> bool" where
  "ident_char c = (ident_start c \<or> c \<in> set ''0123456789'')"

definition isidentifier :: "(string \<Rightarrow> bool) \<Rightarrow> string \<Rightarrow> bool" where
  "isidentifier xid s =
     (if list_all is_ascii s
      then (case s of [] \<Rightarrow> False | c # cs \<Rightarrow> ident_start c \<and> list_all ident_char cs)
      else xid s)"

definition kwlist :: "string list" where
  "kwlist = [''False'', ''None'', ''True'', ''and'', ''as'', ''assert'', ''async'', ''await'',
     ''break'', ''class'', ''continue'', ''def'', ''del'', ''elif'', ''else'', ''except'',
     ''finally'', ''for'', ''from'', ''global'', ''if'', ''import'', ''in'', ''is'', ''lambda'',
     ''nonlocal'', ''not'', ''or'', ''pass'', ''raise'', ''return'', ''try'', ''while'', ''with'',
     ''yield'']"

definition iskeyword :: "string \<Rightarrow> bool" where
  "iskeyword s = (s \<in> set kwlist)"

definition startswith_underscore :: "string \<Rightarrow> bool" where
  "startswith_underscore s = (case s of [] \<Rightarrow> False | c # cs \<Rightarrow> c = CHR ''_'')"

text \<open>
  The renaming loop of \<^verbatim>\<open>namedtuple(..., rename=True)\<close>: an invalid name, a keyword, a name
  with a leading underscore or a name seen before is replaced by \<^verbatim>\<open>_<index>\<close>; the original
  name is added to \<open>seen\<close> either way.
\<close>

fun rename_fields :: "(string \<Rightarrow> bool) \<Rightarrow> nat \<Rightarrow> string list \<Rightarrow> string list \<Rightarrow> string list" where
  "rename_fields xid index seen [] = []"
| "rename_fields xid index seen (name # rest) =
     (if \<not> isidentifier xid name \<or> iskeyword name \<or> startswith_underscore name \<or> name \<in> set seen
      then CHR ''_'' # str_nat index
      else name) # rename_fields xid (Suc index) (name # seen) rest"

text \<open>The two validation loops that follow, over the type name and the field names.\<close>

fun check_names :: "(string \<Rightarrow> bool) \<Rightarrow> string list \<Rightarrow> error option" where
  "check_names xid [] = None"
| "check_names xid (name # rest) =
     (if \<not> isidentifier xid name then Some (ValueError name)
      else if iskeyword name then Some (ValueError name)
      else check_names xid rest)"

fun check_fields :: "bool \<Rightarrow> string list \<Rightarrow> string list \<Rightarrow> error option" where
  "check_fields rename seen [] = None"
| "check_fields rename seen (name # rest) =
     (if startswith_underscore name \<and> \<not> rename then Some (ValueError name)
      else if name \<in> set seen then Some (ValueError name)
      else check_fields rename (name # seen) rest)"

record namedtuple_type =
  nt_typename :: string
  nt_fields :: "string list"

definition namedtuple ::
  "(string \<Rightarrow> bool) \<Rightarrow> string \<Rightarrow> string list \<Rightarrow> bool \<Rightarrow> error + namedtuple_type" where
  "namedtuple xid typename field_names rename =
     (let field_names = (if rename then rename_fields xid 0 [] field_names else field_names) in
      case check_names xid (typename # field_names) of
        Some e \<Rightarrow> Inl e
      | None \<Rightarrow>
          (case check_fields rename [] field_names of
             Some e \<Rightarrow> Inl e
           | None \<Rightarrow> Inr \<lparr>nt_typename = typename, nt_fields = field_names\<rparr>))"

text \<open>
  A decoded row: the field names paired with the row's values, position by position.
  \<^verbatim>\<open>_make\<close> raises \<^verbatim>\<open>TypeError\<close> when the row has another length than the type has fields.
\<close>

type_synonym result_row = "(string \<times> pyval) list"

definition nt_make :: "namedtuple_type \<Rightarrow> pyval list \<Rightarrow> error + result_row" where
  "nt_make t r =
     (if length r \<noteq> length (nt_fields t) then Inl (TypeError (nt_typename t))
      else Inr (zip (nt_fields t) r))"

section \<open>The finalized query (\<^verbatim>\<open>query.py\<close>)\<close>

record query =
  q_id :: nat
  q_db :: database
  q_spec :: query_spec
  q_statement :: string
  q_params :: "pyval list"
  q_columns :: column_collection
  q_return_type :: namedtuple_type

text \<open>
  \<^verbatim>\<open>Query.__init__\<close>; \<open>self_id\<close> is \<^verbatim>\<open>id(self)\<close>, the identity of the object under
  construction, and \<open>xid\<close> the interpreter's verdict on names outside ASCII, which
  \<^verbatim>\<open>namedtuple\<close> consults.
\<close>

definition Query_init ::
  "(string \<Rightarrow> bool) \<Rightarrow> nat \<Rightarrow> query_spec \<Rightarrow> string \<Rightarrow> pyval list \<Rightarrow> database option
     \<Rightarrow> error + query" where
  "Query_init xid self_id spec statement params db =
     (case db of
        None \<Rightarrow> Inl (QueryError ''Attempting to query without a database.'')
      | Some d \<Rightarrow>
          (let columns = QueryColumnCollection_init self_id spec in
           case namedtuple xid (''QueryResult_'' @ str_int (int self_id)) (getNames columns) True of
             Inl e \<Rightarrow> Inl e
           | Inr return_type \<Rightarrow>
               Inr \<lparr>q_id = self_id, q_db = d, q_spec = spec, q_statement = statement,
                     q_params = params, q_columns = columns, q_return_type = return_type\<rparr>))"

text \<open>
  The first half of \<^verbatim>\<open>Query.execute\<close>: the statement text for this call. The source formats
  \<^verbatim>\<open>'\nLIMIT {0} OFFSET {0}'.format(limit, offset)\<close>, so both fields take argument 0.
\<close>

definition execute_statement :: "query \<Rightarrow> int option \<Rightarrow> int option \<Rightarrow> string" where
  "execute_statement self limit offset =
     (let statement = q_statement self in
      case limit of
        None \<Rightarrow> statement
      | Some l \<Rightarrow>
          (case offset of
             Some off \<Rightarrow> statement @ CHR 0x0A # ''LIMIT '' @ str_int l @ '' OFFSET '' @ str_int l
           | None \<Rightarrow> statement @ CHR 0x0A # ''LIMIT '' @ str_int l))"

text \<open>The body of the \<^verbatim>\<open>with\<close> block: any driver call may raise, which ends the block.\<close>

definition run_cursor :: "dbapi_module \<Rightarrow> conn \<Rightarrow> string \<Rightarrow> pyval list \<Rightarrow> error + pyval list list" where
  "run_cursor m conn statement params =
     (case conn_cursor m conn of
        Inl e \<Rightarrow> Inl e
      | Inr cur \<Rightarrow>
          (case cur_execute m cur statement params of
             Inl e \<Rightarrow> Inl e
           | Inr cur' \<Rightarrow>
               (case cur_fetchall m cur' of
                  Inl e \<Rightarrow> Inl e
                | Inr results \<Rightarrow>
                    (case cur_close m cur' of
                       Inl e \<Rightarrow> Inl e
                     | Inr u \<Rightarrow> Inr results))))"

text \<open>\<^verbatim>\<open>Query._process_result\<close>, and the list comprehension over the fetched rows.\<close>

definition process_result :: "query \<Rightarrow> pyval list \<Rightarrow> error + result_row" where
  "process_result self r = nt_make (q_return_type self) r"

fun process_results :: "query \<Rightarrow> pyval list list \<Rightarrow> error + result_row list" where
  "process_results self [] = Inr []"
| "process_results self (r # rs) =
     (case process_result self r of
        Inl e \<Rightarrow> Inl e
      | Inr x \<Rightarrow> (case process_results self rs of Inl e \<Rightarrow> Inl e | Inr xs \<Rightarrow> Inr (x # xs)))"

text \<open>
  \<^verbatim>\<open>Query.execute\<close>. The result is \<open>None\<close> when the call never returns (the pool blocks),
  otherwise the exception raised or the decoded rows; the query comes back with the pool
  of its database as the call left it.
\<close>

definition execute ::
  "query \<Rightarrow> int option \<Rightarrow> int option \<Rightarrow> (error + result_row list) option \<times> query" where
  "execute self limit offset =
     (let statement = execute_statement self limit offset in
      case getattr (q_db self) ''pool'' of
        Inl e \<Rightarrow> (Some (Inl e), self)
      | Inr (A_pool p) \<Rightarrow>
          (case pool_get p of
             Blocks \<Rightarrow> (None, self)
           | Fails e \<Rightarrow> (Some (Inl e), self)
           | Handle conn p' \<Rightarrow>
               (let body = run_cursor (pool_dbapi p') conn statement (q_params self);
                    self' = self\<lparr>q_db := (q_db self)(''pool'' \<mapsto> A_pool (pool_exit p' conn))\<rparr>
                in case body of
                     Inl e \<Rightarrow> (Some (Inl e), self')
                   | Inr results \<Rightarrow> (Some (process_results self' results), self')))
      | Inr other \<Rightarrow> (Some (Inl (AttributeError ''get'')), self))"

text \<open>
  \<^verbatim>\<open>Query._get_selectables\<close>: the column of each name of \<^verbatim>\<open>getNames()\<close>, in order; a failing
  lookup raises.
\<close>

fun lookup_all :: "column_collection \<Rightarrow> string list \<Rightarrow> error + expr list" where
  "lookup_all cc [] = Inr []"
| "lookup_all cc (name # names) =
     (case getitem cc name of
        Inl e \<Rightarrow> Inl e
      | Inr c \<Rightarrow> (case lookup_all cc names of Inl e \<Rightarrow> Inl e | Inr cs \<Rightarrow> Inr (c # cs)))"

definition get_selectables :: "query \<Rightarrow> error + expr list" where
  "get_selectables self = lookup_all (q_columns self) (getNames (q_columns self))"

definition get_params :: "query \<Rightarrow> pyval list" where
  "get_params self = q_params self"

definition get_statement :: "query \<Rightarrow> string" where
  "get_statement self = q_statement self"

definition get_from_field :: "query \<Rightarrow> string" where
  "get_from_field self = ''('' @ q_statement self @ '')''"


section \<open>The query builder\<close>

text \<open>
  Modelled from the spec: the builder (\<^verbatim>\<open>query_builder.py\<close>) is not among the sources. It
  accumulates the clauses; \<^verbatim>\<open>where\<close> and \<^verbatim>\<open>having\<close> add one predicate per call and conjoin
  them, \<^verbatim>\<open>order_by\<close> appends one key per call.
\<close>

record query_builder =
  qb_db :: "database option"
  qb_select :: "expr list"
  qb_from :: "table_ref option"
  qb_where :: "expr list"
  qb_group_by :: "expr list"
  qb_having :: "expr list"
  qb_order_by :: "(expr \<times> bool \<times> string option) list"
  qb_distinct :: bool

text \<open>Modelled from the spec: a fresh builder on a database, with no clause set.\<close>

definition QueryBuilder_init :: "database option \<Rightarrow> query_builder" where
  "QueryBuilder_init db =
     \<lparr>qb_db = db, qb_select = [], qb_from = None, qb_where = [], qb_group_by = [],
      qb_having = [], qb_order_by = [], qb_distinct = False\<rparr>"

text \<open>Modelled from the spec: the clause-setting calls, and what each does to the builder.\<close>

datatype call =
    Select "expr list"
  | FromItem table_ref
  | Where expr
  | Group_by "expr list"
  | Having expr
  | Order_by expr bool "string option"
  | Distinct

fun apply_call :: "query_builder \<Rightarrow> call \<Rightarrow> query_builder" where
  "apply_call b (Select es) = b\<lparr>qb_select := qb_select b @ es\<rparr>"
| "apply_call b (FromItem t) = b\<lparr>qb_from := Some t\<rparr>"
| "apply_call b (Where e) = b\<lparr>qb_where := qb_where b @ [e]\<rparr>"
| "apply_call b (Group_by es) = b\<lparr>qb_group_by := qb_group_by b @ es\<rparr>"
| "apply_call b (Having e) = b\<lparr>qb_having := qb_having b @ [e]\<rparr>"
| "apply_call b (Order_by e ascending nulls) = b\<lparr>qb_order_by := qb_order_by b @ [(e, ascending, nulls)]\<rparr>"
| "apply_call b Distinct = b\<lparr>qb_distinct := True\<rparr>"

text \<open>Modelled from the spec: a chain of clause-setting calls, applied in order.\<close>

definition apply_calls :: "query_builder \<Rightarrow> call list \<Rightarrow> query_builder" where
  "apply_calls b cs = foldl apply_call b cs"

text \<open>
  Modelled from the spec: without an explicit FROM item, the FROM item is the one table
  expression referenced by the selected expressions and the WHERE predicates; none or
  several is a build-time error.
\<close>

definition derive_from :: "query_builder \<Rightarrow> error + table_ref" where
  "derive_from b =
     (case qb_from b of
        Some t \<Rightarrow> Inr t
      | None \<Rightarrow>
          (case remdups (concat (map get_tables (qb_select b @ qb_where b))) of
             [t] \<Rightarrow> Inr t
           | _ \<Rightarrow> Inl (QueryError ''Cannot derive a single FROM item.'')))"

text \<open>
  Modelled from the spec: a Value expression wraps a literal and optionally carries a
  user-supplied parameter name, as \<^verbatim>\<open>Value(genre1_id, param_name="genre_id")\<close> in the tests.
\<close>

record value_expr =
  v_literal :: pyval
  v_param_name :: "string option"

text \<open>
  Modelled from the spec: every Value expression contributes exactly one parameter, in the
  order it is met during rendering; a named one is registered with the slot it takes.
\<close>

fun register_params :: "nat \<Rightarrow> value_expr list \<Rightarrow> (string \<times> nat) list" where
  "register_params slot [] = []"
| "register_params slot (v # vs) =
     (case v_param_name v of
        None \<Rightarrow> register_params (Suc slot) vs
      | Some name \<Rightarrow> (name, slot) # register_params (Suc slot) vs)"

text \<open>
  Modelled from the spec: the terminal \<^verbatim>\<open>get()\<close> validates the clauses, freezes them into a
  specification and constructs the \<^verbatim>\<open>Query\<close>. The SQL renderer is not among the sources
  either: \<open>render\<close> gives the statement text and the Value expressions in the order the
  rendering meets them; their literals are the parameter list.
\<close>

definition get ::
  "(string \<Rightarrow> bool) \<Rightarrow> (query_builder \<Rightarrow> string \<times> value_expr list) \<Rightarrow> nat \<Rightarrow> query_builder
     \<Rightarrow> error + query" where
  "get xid render self_id b =
     (case derive_from b of
        Inl e \<Rightarrow> Inl e
      | Inr from_item \<Rightarrow>
          if qb_having b \<noteq> [] \<and> qb_group_by b = []
          then Inl (QueryError ''HAVING requires GROUP BY.'')
          else (case render b of
                  (statement, vals) \<Rightarrow>
                    Query_init xid self_id
                      \<lparr>select_exprs = qb_select b, from_expr = from_item,
                        where_conditions = qb_where b, group_exprs = qb_group_by b,
                        having_conditions = qb_having b, order_exprs = qb_order_by b,
                        is_distinct = qb_distinct b, named_params = register_params 0 vals\<rparr>
                      statement (map v_literal vals) (qb_db b)))"


section \<open>A concrete driver\<close>

text \<open>
  A driver for running the model on concrete inputs: it declares the \<^verbatim>\<open>qmark\<close> style, always
  connects, and answers every statement with one row holding the statement text followed
  by the parameters it was given, so that what reached the driver can be read off the result.
\<close>

definition echo_dbapi :: dbapi_module where
  "echo_dbapi =
     \<lparr>paramstyle = ''qmark'',
      dbapi_connect = (\<lambda>args kwargs. Inr 0),
      conn_cursor = (\<lambda>c. Inr (Cursor c [])),
      cur_execute = (\<lambda>cur statement params.
         case cur of Cursor c log \<Rightarrow> Inr (Cursor c (log @ [(statement, params)]))),
      cur_fetchall = (\<lambda>cur. case cur of Cursor c log \<Rightarrow> Inr (map (\<lambda>(st, ps). PStr st # ps) log)),
      cur_close = (\<lambda>cur. Inr ())\<rparr>"

text \<open>The same driver, except that executing a statement raises.\<close>

definition failing_dbapi :: dbapi_module where
  "failing_dbapi = echo_dbapi\<lparr>cur_execute := (\<lambda>cur statement params. Inl (DriverError statement))\<rparr>"

section \<open>A concrete database and query\<close>

text \<open>
  The verdict of the Unicode tables on the one name outside ASCII used below, \<^verbatim>\<open>cafe\<close> with an acute accent on the e, in
  UTF-8: it is an identifier.
\<close>

definition example_xid :: "string \<Rightarrow> bool" where
  "example_xid s = (s = ''caf'' @ [CHR 0xC3, CHR 0xA9])"

text \<open>
  The inner query of \<^verbatim>\<open>test_selectFromQuery\<close>, on a database over the echo driver with one
  standby connection, and with its one parameter registered under a name.
\<close>

definition example_spec :: query_spec where
  "example_spec =
     \<lparr>select_exprs =
        [OtherExpr ''ArtistId'' ''Album.ArtistId'' ''ArtistId'' [TableRef ''Album''],
         OtherExpr ''Title'' ''Album.Title'' ''Title'' [TableRef ''Album'']],
      from_expr = TableRef ''Album'',
      where_conditions =
        [OtherExpr ''_'' ''(Album.ArtistId = ?)'' ''(ArtistId = ?)'' [TableRef ''Album'']],
      group_exprs = [], having_conditions = [], order_exprs = [],
      is_distinct = False, named_params = [(''artist_id'', 0)]\<rparr>"

definition example_statement :: string where
  "example_statement = ''SELECT Album.ArtistId, Album.Title FROM Album WHERE (ArtistId = ?)''"

definition example_db :: database where
  "example_db = projr (Database_init None None (Some echo_dbapi) PNone 1 2)"

definition example_query :: query where
  "example_query = projr (Query_init example_xid 7 example_spec example_statement [PInt 51] (Some example_db))"

text \<open>The same query on a database whose driver fails on every statement.\<close>

definition failing_db :: database where
  "failing_db = projr (Database_init None None (Some failing_dbapi) PNone 1 2)"

definition failing_query :: query where
  "failing_query = projr (Query_init example_xid 7 example_spec example_statement [PInt 51] (Some failing_db))"



text \<open>An outer query that selects the columns of the example query, used as its FROM item.\<close>

definition outer_spec :: query_spec where
  "outer_spec = example_spec\<lparr>from_expr := QueryRef 7, where_conditions := [], named_params := []\<rparr>"

definition outer_query :: query where
  "outer_query =
     projr (Query_init example_xid 8 (outer_spec\<lparr>select_exprs := projr (get_selectables example_query)\<rparr>)
       (''SELECT ArtistId, Title FROM ('' @ example_statement @ '')'') [PInt 51] (Some example_db))"

text \<open>The builder calls of \<^verbatim>\<open>test_havingMustHaveGroupBy\<close>, and a renderer that renders nothing.\<close>

definition having_calls :: "call list" where
  "having_calls =
     [Select [OtherExpr ''GenreId'' ''Track.GenreId'' ''GenreId'' [TableRef ''Track''],
              OtherExpr ''TrackCount'' ''COUNT(Track.TrackId) AS TrackCount'' ''TrackCount''
                [TableRef ''Track'']],
      Having (OtherExpr ''_'' ''(COUNT(Track.TrackId) > ?)'' ''(COUNT(TrackId) > ?)''
                [TableRef ''Track''])]"

definition no_render :: "query_builder \<Rightarrow> string \<times> value_expr list" where
  "no_render b = ([], [])"






text \<open>The pool of the failing database, as construction leaves it.\<close>

definition failing_pool :: pool where
  "failing_pool =
     \<lparr>pool_dbapi = failing_dbapi, pool_args = [], pool_kwargs = [], pool_minconn = 1,
      pool_maxconn = 2, pool_idle = [0], pool_checked_out = 0, pool_closing = False\<rparr>"

section \<open>Evaluating the concrete database and query\<close>

lemma str_nat_digit: "n < 10 \<Longrightarrow> str_nat n = [digit_char n]"
  by simp

lemma str_nat_step: "\<not> n < 10 \<Longrightarrow> str_nat n = str_nat (n div 10) @ [digit_char (n mod 10)]"
  by simp

declare str_nat.simps [simp del]

lemma str_int_7: "str_int 7 = ''7''"
  by (simp add: str_int_def str_nat_digit digit_char_def)

lemma example_db_eq:
  "Database_init None None (Some echo_dbapi) PNone 1 2 = Inr example_db"
  by (simp add: example_db_def Database_init_def get_param_marker_def echo_dbapi_def Pool_def)

lemma example_db_pool:
  "example_db ''pool'' = Some (A_pool
      \<lparr>pool_dbapi = echo_dbapi, pool_args = [], pool_kwargs = [], pool_minconn = 1,
       pool_maxconn = 2, pool_idle = [0], pool_checked_out = 0, pool_closing = False\<rparr>)"
  by (simp add: example_db_def Database_init_def get_param_marker_def echo_dbapi_def Pool_def)

lemma example_return_type:
  "namedtuple example_xid ''QueryResult_7'' [''ArtistId'', ''Title''] True =
     Inr \<lparr>nt_typename = ''QueryResult_7'', nt_fields = [''ArtistId'', ''Title'']\<rparr>"
  by (simp add: namedtuple_def isidentifier_def is_ascii_def ident_start_def ident_char_def
      iskeyword_def kwlist_def startswith_underscore_def)

lemma example_query_eq:
  "Query_init example_xid 7 example_spec example_statement [PInt 51] (Some example_db) = Inr example_query"
  by (simp add: example_query_def Query_init_def QueryColumnCollection_init_def getNames_def
      example_spec_def str_int_7 example_return_type)

lemma example_query_fields:
  "q_statement example_query = example_statement"
  "q_params example_query = [PInt 51]"
  "q_db example_query = example_db"
  "q_spec example_query = example_spec"
  "q_return_type example_query =
     \<lparr>nt_typename = ''QueryResult_7'', nt_fields = [''ArtistId'', ''Title'']\<rparr>"
  by (simp_all add: example_query_def Query_init_def QueryColumnCollection_init_def getNames_def
      example_spec_def str_int_7 example_return_type)

section \<open>Paging: LIMIT and OFFSET\<close>

text \<open>
  C1. The claim: with both a limit and an offset, \<^verbatim>\<open>execute\<close> runs the stored statement with
  the suffix \<^verbatim>\<open>LIMIT <limit> OFFSET <offset>\<close>, the offset field taking the offset value.
  The code does not: both fields of the format string take argument 0, the limit. On the
  example query with limit 5 and offset 10, the statement that reaches the driver (echoed
  back in the first cell of the row) ends in \<^verbatim>\<open>LIMIT 5 OFFSET 5\<close>.
\<close>

theorem C1_offset_receives_limit:
  "fst (execute example_query (Some 5) (Some 10)) =
     Some (Inr [[(''ArtistId'', PStr (example_statement @ CHR 0x0A # ''LIMIT 5 OFFSET 5'')),
                 (''Title'', PInt 51)]])"
  by (simp add: execute_def execute_statement_def example_query_fields getattr_def example_db_pool
      pool_get_def run_cursor_def echo_dbapi_def process_result_def nt_make_def str_int_def
      str_nat_digit digit_char_def)

section \<open>Construction of the database\<close>

text \<open>
  C8. Constructing a \<^verbatim>\<open>Database\<close> without a DBAPI module raises \<^verbatim>\<open>MissingModuleError\<close>; with
  a module whose \<^verbatim>\<open>paramstyle\<close> is none of \<^verbatim>\<open>qmark\<close>, \<^verbatim>\<open>format\<close>, \<^verbatim>\<open>pyformat\<close> it raises
  \<^verbatim>\<open>UnsupportedModuleError\<close>; otherwise the marker is \<^verbatim>\<open>?\<close> for \<^verbatim>\<open>qmark\<close> and \<^verbatim>\<open>%s\<close> for
  \<^verbatim>\<open>format\<close> and \<^verbatim>\<open>pyformat\<close>, and every database that is constructed stores exactly that
  marker.
\<close>

theorem C8_database_construction:
  "Database_init args kwargs None dsn mn mx = Inl MissingModuleError \<and>
   (paramstyle m \<notin> {''qmark'', ''format'', ''pyformat''} \<longrightarrow>
      Database_init args kwargs (Some m) dsn mn mx = Inl UnsupportedModuleError) \<and>
   (paramstyle m = ''qmark'' \<longrightarrow> get_param_marker m = Inr ''?'') \<and>
   (paramstyle m \<in> {''format'', ''pyformat''} \<longrightarrow> get_param_marker m = Inr ''%s'') \<and>
   (\<forall>db. Database_init args kwargs (Some m) dsn mn mx = Inr db \<longrightarrow>
      get_param_marker m = Inr (if paramstyle m = ''qmark'' then ''?'' else ''%s'') \<and>
      db ''_param_marker'' = Some (A_str (if paramstyle m = ''qmark'' then ''?'' else ''%s'')))"
  by (auto simp: Database_init_def get_param_marker_def Let_def split: sum.splits)

theorem C8_database_construction_witness:
  "Database_init None None None PNone 1 2 = Inl MissingModuleError \<and>
   Database_init None None (Some (echo_dbapi\<lparr>paramstyle := ''named''\<rparr>)) PNone 1 2
     = Inl UnsupportedModuleError \<and>
   get_param_marker echo_dbapi = Inr ''?'' \<and>
   get_param_marker (echo_dbapi\<lparr>paramstyle := ''pyformat''\<rparr>) = Inr ''%s'' \<and>
   example_db ''_param_marker'' = Some (A_str ''?'')"
proof -
  have qmark: "paramstyle echo_dbapi = ''qmark''"
    by (simp add: echo_dbapi_def)
  have named: "paramstyle (echo_dbapi\<lparr>paramstyle := ''named''\<rparr>)
                 \<notin> {''qmark'', ''format'', ''pyformat''}"
    by simp
  have pyformat: "paramstyle (echo_dbapi\<lparr>paramstyle := ''pyformat''\<rparr>) \<in> {''format'', ''pyformat''}"
    by simp
  show ?thesis
    using C8_database_construction [of None None PNone 1 2 echo_dbapi]
      C8_database_construction [of None None PNone 1 2 "echo_dbapi\<lparr>paramstyle := ''named''\<rparr>"]
      C8_database_construction [of None None PNone 1 2 "echo_dbapi\<lparr>paramstyle := ''pyformat''\<rparr>"]
      qmark named pyformat example_db_eq
    by simp
qed

text \<open>
  C10. \<^verbatim>\<open>__init__\<close> assigns \<^verbatim>\<open>_dsn\<close>, \<^verbatim>\<open>_dbapi\<close>, \<^verbatim>\<open>_param_marker\<close> and \<^verbatim>\<open>pool\<close>, never
  \<^verbatim>\<open>_connection_args\<close>: on every database that \<^verbatim>\<open>__init__\<close> constructs, \<^verbatim>\<open>connect()\<close> raises
  \<^verbatim>\<open>AttributeError\<close> for that attribute and returns no connection.
\<close>

theorem C10_connect_raises_attribute_error:
  assumes "Database_init args kwargs dbapi dsn mn mx = Inr db"
  shows "connect db = Inl (AttributeError ''_connection_args'')"
  using assms
  by (auto simp: Database_init_def connect_def getattr_def Let_def split: option.splits sum.splits)

theorem C10_connect_raises_attribute_error_witness:
  "Database_init None None (Some echo_dbapi) PNone 1 2 = Inr example_db \<and>
   connect example_db = Inl (AttributeError ''_connection_args'')"
  using C10_connect_raises_attribute_error [OF example_db_eq] example_db_eq by simp

section \<open>Construction of the query\<close>

text \<open>
  C7. Constructing a \<^verbatim>\<open>Query\<close> with \<^verbatim>\<open>db=None\<close> raises \<^verbatim>\<open>QueryError\<close>; the check is the first
  statement of \<^verbatim>\<open>__init__\<close> and touches neither pool nor driver. Hence every \<^verbatim>\<open>Query\<close> that is
  constructed holds the database it was given.
\<close>

theorem C7_query_requires_database:
  "Query_init xid self_id spec statement params None
     = Inl (QueryError ''Attempting to query without a database.'') \<and>
   (\<forall>q. Query_init xid self_id spec statement params db = Inr q \<longrightarrow> db = Some (q_db q))"
  by (auto simp: Query_init_def Let_def split: option.splits sum.splits)

theorem C7_query_requires_database_witness:
  "Query_init example_xid 7 example_spec example_statement [PInt 51] None
     = Inl (QueryError ''Attempting to query without a database.'') \<and>
   Query_init example_xid 7 example_spec example_statement [PInt 51] (Some example_db) = Inr example_query \<and>
   Some example_db = Some (q_db example_query)"
  using C7_query_requires_database
      [of example_xid 7 example_spec example_statement "[PInt 51]" "Some example_db"]
    example_query_eq
  by simp

section \<open>Decimal numerals and the renaming of field names\<close>

lemma digit_cases: "d < 10 \<Longrightarrow> d \<in> {0, 1, 2, 3, 4, 5, 6, 7, 8, 9::nat}"
  by auto

lemma digit_char_is_digit: "d < 10 \<Longrightarrow> digit_char d \<in> set ''0123456789''"
  unfolding digit_char_def by (rule nth_mem) simp

lemma digit_val_digit_char: "d < 10 \<Longrightarrow> digit_val (digit_char d) = d"
  using digit_cases [of d] by (auto simp: digit_val_def digit_char_def)

lemma nat_of_digits_snoc: "nat_of_digits (s @ [c]) = 10 * nat_of_digits s + digit_val c"
  by (simp add: nat_of_digits_def)

lemma nat_of_digits_str_nat: "nat_of_digits (str_nat n) = n"
proof (induction n rule: str_nat.induct)
  case (1 n)
  show ?case
  proof (cases "n < 10")
    case True
    then show ?thesis
      by (simp add: str_nat_digit nat_of_digits_def digit_val_digit_char)
  next
    case False
    then have "nat_of_digits (str_nat n) = 10 * (n div 10) + n mod 10"
      using "1.IH" by (simp add: str_nat_step nat_of_digits_snoc digit_val_digit_char)
    then show ?thesis by simp
  qed
qed

lemma str_nat_inj: "str_nat m = str_nat n \<Longrightarrow> m = n"
  by (metis nat_of_digits_str_nat)

lemma str_nat_ident_chars: "list_all ident_char (str_nat n)"
proof (induction n rule: str_nat.induct)
  case (1 n)
  show ?case
  proof (cases "n < 10")
    case True
    then show ?thesis
      using digit_char_is_digit [of n] by (simp add: str_nat_digit ident_char_def)
  next
    case False
    then show ?thesis
      using "1.IH" digit_char_is_digit [of "n mod 10"]
      by (simp add: str_nat_step ident_char_def)
  qed
qed

lemma str_nat_ascii: "list_all is_ascii (str_nat n)"
proof (induction n rule: str_nat.induct)
  case (1 n)
  have digit: "is_ascii (digit_char d)" if "d < 10" for d
    using digit_char_is_digit [OF that] by (auto simp: is_ascii_def)
  show ?case
  proof (cases "n < 10")
    case True
    then show ?thesis
      by (simp add: str_nat_digit digit)
  next
    case False
    then show ?thesis
      using "1.IH" by (simp add: str_nat_step digit)
  qed
qed

lemma underscore_index_valid:
  "isidentifier xid (CHR ''_'' # str_nat n)" "\<not> iskeyword (CHR ''_'' # str_nat n)"
  by (simp_all add: isidentifier_def is_ascii_def ident_start_def str_nat_ident_chars str_nat_ascii
      iskeyword_def kwlist_def)

lemma typename_valid:
  "isidentifier xid (''QueryResult_'' @ str_int (int n))" "\<not> iskeyword (''QueryResult_'' @ str_int (int n))"
  by (simp_all add: isidentifier_def is_ascii_def ident_start_def ident_char_def str_int_def
      str_nat_ident_chars str_nat_ascii iskeyword_def kwlist_def)



lemma rename_fields_elem:
  "x \<in> set (rename_fields xid k seen names) \<Longrightarrow>
   (\<exists>m\<ge>k. x = CHR ''_'' # str_nat m) \<or>
   (x \<in> set names \<and> x \<notin> set seen \<and> \<not> startswith_underscore x \<and> isidentifier xid x \<and> \<not> iskeyword x)"
proof (induction names arbitrary: k seen)
  case Nil
  then show ?case by simp
next
  case (Cons name rest)
  from Cons.prems consider
      (head) "x = (if \<not> isidentifier xid name \<or> iskeyword name \<or> startswith_underscore name \<or> name \<in> set seen
                   then CHR ''_'' # str_nat k else name)"
    | (tail) "x \<in> set (rename_fields xid (Suc k) (name # seen) rest)"
    by auto
  then show ?case
  proof cases
    case head
    then show ?thesis by (auto split: if_splits)
  next
    case tail
    from Cons.IH [OF tail] show ?thesis
      by (auto intro: Suc_leD)
  qed
qed

lemma distinct_rename_fields: "distinct (rename_fields xid k seen names)"
proof (induction names arbitrary: k seen)
  case Nil
  then show ?case by simp
next
  case (Cons name rest)
  let ?x = "if \<not> isidentifier xid name \<or> iskeyword name \<or> startswith_underscore name \<or> name \<in> set seen
            then CHR ''_'' # str_nat k else name"
  have "?x \<notin> set (rename_fields xid (Suc k) (name # seen) rest)"
  proof
    assume "?x \<in> set (rename_fields xid (Suc k) (name # seen) rest)"
    from rename_fields_elem [OF this] show False
      by (auto simp: startswith_underscore_def dest: str_nat_inj split: if_splits)
  qed
  with Cons.IH show ?case by simp
qed

lemma check_names_None:
  "check_names xid xs = None \<longleftrightarrow> (\<forall>x\<in>set xs. isidentifier xid x \<and> \<not> iskeyword x)"
  by (induction xs) auto

lemma check_fields_None:
  "check_fields True seen xs = None \<longleftrightarrow> distinct xs \<and> set xs \<inter> set seen = {}"
  by (induction xs arbitrary: seen) auto

lemma rename_fields_valid:
  "x \<in> set (rename_fields xid k seen names) \<Longrightarrow> isidentifier xid x \<and> \<not> iskeyword x"
  using rename_fields_elem [of x xid k seen names] underscore_index_valid by auto

lemma namedtuple_rename:
  "namedtuple xid (''QueryResult_'' @ str_int (int n)) names True =
     Inr \<lparr>nt_typename = ''QueryResult_'' @ str_int (int n), nt_fields = rename_fields xid 0 [] names\<rparr>"
proof -
  have "check_names xid ((''QueryResult_'' @ str_int (int n)) # rename_fields xid 0 [] names) = None"
    unfolding check_names_None using typename_valid [where n = n] rename_fields_valid by auto
  moreover have "check_fields True [] (rename_fields xid 0 [] names) = None"
    by (simp add: check_fields_None distinct_rename_fields)
  ultimately show ?thesis
    by (simp add: namedtuple_def)
qed

lemma Query_init_Some:
  "Query_init xid self_id spec statement params (Some d) =
     Inr \<lparr>q_id = self_id, q_db = d, q_spec = spec, q_statement = statement, q_params = params,
          q_columns = QueryColumnCollection_init self_id spec,
          q_return_type =
            \<lparr>nt_typename = ''QueryResult_'' @ str_int (int self_id),
             nt_fields = rename_fields xid 0 [] (map get_name (select_exprs spec))\<rparr>\<rparr>"
proof -
  have "getNames (QueryColumnCollection_init self_id spec) = map get_name (select_exprs spec)"
    by (simp add: getNames_def QueryColumnCollection_init_def comp_def)
  then show ?thesis
    by (simp add: Query_init_def namedtuple_rename del: append.simps)
qed









section \<open>Evaluating the other concrete queries\<close>

lemma example_fields:
  "rename_fields example_xid 0 [] [''ArtistId'', ''Title''] = [''ArtistId'', ''Title'']"
  by (simp add: isidentifier_def is_ascii_def ident_start_def ident_char_def iskeyword_def
      kwlist_def startswith_underscore_def)

lemma outer_query_eq:
  "Query_init example_xid 8 (outer_spec\<lparr>select_exprs := projr (get_selectables example_query)\<rparr>)
       (''SELECT ArtistId, Title FROM ('' @ example_statement @ '')'') [PInt 51] (Some example_db)
     = Inr outer_query"
  unfolding outer_query_def Query_init_Some by simp





lemma failing_db_pool: "failing_db ''pool'' = Some (A_pool failing_pool)"
  by (simp add: failing_db_def Database_init_def get_param_marker_def failing_dbapi_def
      echo_dbapi_def Pool_def failing_pool_def)

lemma failing_query_fields:
  "q_statement failing_query = example_statement"
  "q_params failing_query = [PInt 51]"
  "q_db failing_query = failing_db"
  by (simp_all add: failing_query_def Query_init_Some)

section \<open>The column namespace of a query\<close>

lemma fold_by_name_Some:
  assumes f: "\<And>c m. f c m = m(get_name c \<mapsto> c)"
  shows "fold f cols m n = Some c \<Longrightarrow> (c \<in> set cols \<and> get_name c = n) \<or> m n = Some c"
proof (induction cols arbitrary: m)
  case Nil
  then show ?case by simp
next
  case (Cons a cols)
  from Cons.prems have "fold f cols (f a m) n = Some c"
    by simp
  from Cons.IH [OF this] show ?case
    by (auto simp: f split: if_splits)
qed

lemma fold_by_name_defined:
  assumes f: "\<And>c m. f c m = m(get_name c \<mapsto> c)"
  shows "n \<in> get_name ` set cols \<or> m n \<noteq> None \<Longrightarrow> fold f cols m n \<noteq> None"
proof (induction cols arbitrary: m)
  case Nil
  then show ?case by simp
next
  case (Cons a cols)
  from Cons.prems have "n \<in> get_name ` set cols \<or> f a m n \<noteq> None"
    by (auto simp: f)
  then have "fold f cols (f a m) n \<noteq> None"
    by (rule Cons.IH [of "f a m"])
  then show ?case
    by simp
qed

lemma getitem_name:
  assumes "n \<in> set (getNames cc)"
  shows "\<exists>c. getitem cc n = Inr c \<and> c \<in> set (cc_columns cc) \<and> get_name c = n"
proof -
  from assms have "n \<in> get_name ` set (cc_columns cc) \<or> (Map.empty :: string \<rightharpoonup> expr) n \<noteq> None"
    by (simp add: getNames_def)
  then have "columns_by_name (cc_columns cc) n \<noteq> None"
    unfolding columns_by_name_def by (rule fold_by_name_defined [rotated]) simp
  then obtain c where c: "columns_by_name (cc_columns cc) n = Some c"
    by blast
  then have "(c \<in> set (cc_columns cc) \<and> get_name c = n) \<or> (Map.empty :: string \<rightharpoonup> expr) n = Some c"
    unfolding columns_by_name_def by (rule fold_by_name_Some [rotated]) simp
  with c show ?thesis
    by (simp add: getitem_def)
qed

lemma lookup_all_names:
  "set names \<subseteq> set (getNames cc) \<Longrightarrow>
   \<exists>cols. lookup_all cc names = Inr cols \<and> map get_name cols = names \<and> set cols \<subseteq> set (cc_columns cc)"
proof (induction names)
  case Nil
  then show ?case by simp
next
  case (Cons n names)
  then obtain cols where cols: "lookup_all cc names = Inr cols" "map get_name cols = names"
      "set cols \<subseteq> set (cc_columns cc)"
    by auto
  from Cons.prems obtain c where c: "getitem cc n = Inr c" "c \<in> set (cc_columns cc)" "get_name c = n"
    using getitem_name [of n cc] by auto
  from cols c show ?case by simp
qed

lemma query_column_fields:
  "c \<in> set (cc_columns (QueryColumnCollection_init qid spec)) \<Longrightarrow>
   get_select_field c = get_name c \<and> get_ref_field c = get_name c \<and> get_tables c = [QueryRef qid]"
  by (auto simp: QueryColumnCollection_init_def)

lemma getNames_init:
  "getNames (QueryColumnCollection_init qid spec) = map get_name (select_exprs spec)"
  by (simp add: getNames_def QueryColumnCollection_init_def comp_def)

text \<open>
  C3. The selectables of a finalized query, which an outer query selects when the query is
  its FROM item, carry exactly the names of the inner SELECT list, in the same order; each
  renders as that bare name in SELECT and in reference position; and an outer query that
  selects them has the same column names and the same record fields as the inner query.
\<close>

theorem C3_subquery_columns:
  assumes "Query_init xid self_id spec statement params db = Inr q"
  shows "\<exists>cols. get_selectables q = Inr cols \<and>
           map get_name cols = map get_name (select_exprs spec) \<and>
           map get_select_field cols = map get_name (select_exprs spec) \<and>
           map get_ref_field cols = map get_name (select_exprs spec) \<and>
           (\<forall>oid ospec ostatement oparams odb outer.
              Query_init xid oid (ospec\<lparr>select_exprs := cols\<rparr>) ostatement oparams odb = Inr outer \<longrightarrow>
                getNames (q_columns outer) = getNames (q_columns q) \<and>
                nt_fields (q_return_type outer) = nt_fields (q_return_type q))"
proof -
  from assms obtain d where db: "db = Some d"
    by (cases db) (auto simp: Query_init_def)
  from assms have q: "q_columns q = QueryColumnCollection_init self_id spec"
    "nt_fields (q_return_type q) = rename_fields xid 0 [] (map get_name (select_exprs spec))"
    unfolding db Query_init_Some by auto
  obtain cols where cols: "lookup_all (q_columns q) (getNames (q_columns q)) = Inr cols"
      "map get_name cols = getNames (q_columns q)" "set cols \<subseteq> set (cc_columns (q_columns q))"
    using lookup_all_names [of "getNames (q_columns q)" "q_columns q"] by auto
  have names: "map get_name cols = map get_name (select_exprs spec)"
    using cols(2) q(1) by (simp add: getNames_init)
  have same: "map get_select_field cols = map get_name cols" "map get_ref_field cols = map get_name cols"
    using cols(3) query_column_fields unfolding q(1) by (auto simp: subset_iff)
  have outer: "getNames (q_columns outer) = getNames (q_columns q) \<and>
               nt_fields (q_return_type outer) = nt_fields (q_return_type q)"
    if "Query_init xid oid (ospec\<lparr>select_exprs := cols\<rparr>) ostatement oparams odb = Inr outer"
    for oid ospec ostatement oparams odb outer
  proof -
    from that obtain od where od: "odb = Some od"
      by (cases odb) (auto simp: Query_init_def)
    from that have "Query_init xid oid (ospec\<lparr>select_exprs := cols\<rparr>) ostatement oparams (Some od) = Inr outer"
      by (simp add: od)
    then have "q_columns outer = QueryColumnCollection_init oid (ospec\<lparr>select_exprs := cols\<rparr>)"
      and "nt_fields (q_return_type outer) = rename_fields xid 0 [] (map get_name cols)"
      unfolding Query_init_Some by auto
    then show ?thesis
      using names q by (simp add: getNames_init)
  qed
  show ?thesis
    using cols(1) names same outer by (auto simp: get_selectables_def)
qed

theorem C3_subquery_columns_witness:
  "map get_select_field (projr (get_selectables example_query)) = [''ArtistId'', ''Title''] \<and>
   map get_ref_field (projr (get_selectables example_query)) = [''ArtistId'', ''Title''] \<and>
   getNames (q_columns outer_query) = [''ArtistId'', ''Title''] \<and>
   nt_fields (q_return_type outer_query) = [''ArtistId'', ''Title'']"
proof -
  from C3_subquery_columns [OF example_query_eq] obtain cols where
    cols: "get_selectables example_query = Inr cols"
      "map get_select_field cols = map get_name (select_exprs example_spec)"
      "map get_ref_field cols = map get_name (select_exprs example_spec)"
    and outer: "\<And>oid ospec ostatement oparams odb outer.
       Query_init example_xid oid (ospec\<lparr>select_exprs := cols\<rparr>) ostatement oparams odb = Inr outer \<Longrightarrow>
         getNames (q_columns outer) = getNames (q_columns example_query) \<and>
         nt_fields (q_return_type outer) = nt_fields (q_return_type example_query)"
    by blast
  have sel: "projr (get_selectables example_query) = cols"
    by (simp add: cols(1))
  have names: "map get_name (select_exprs example_spec) = [''ArtistId'', ''Title'']"
    by (simp add: example_spec_def)
  have inner: "getNames (q_columns example_query) = [''ArtistId'', ''Title'']"
    "nt_fields (q_return_type example_query) = [''ArtistId'', ''Title'']"
    by (simp_all del: rename_fields.simps
        add: example_query_fields example_query_def Query_init_Some getNames_init names example_fields)
  from outer [OF outer_query_eq [unfolded sel]] cols(2,3) show ?thesis
    by (simp add: sel names inner)
qed

section \<open>Decoding rows\<close>



section \<open>Execution and the pool\<close>

lemma execute_frame:
  "snd (execute q limit offset) = q\<lparr>q_db := q_db (snd (execute q limit offset))\<rparr>"
  by (simp add: execute_def Let_def split: sum.splits attr.splits checkout.splits)

text \<open>
  C9. \<^verbatim>\<open>execute\<close> leaves the stored statement, the stored parameters, the specification,
  the columns and the record type of the query as they were, whatever the paging
  arguments; the statement of a later call is again built from the stored text.
\<close>

theorem C9_execute_keeps_statement_and_params:
  "q_statement (snd (execute q limit offset)) = q_statement q \<and>
   q_params (snd (execute q limit offset)) = q_params q \<and>
   q_spec (snd (execute q limit offset)) = q_spec q \<and>
   q_columns (snd (execute q limit offset)) = q_columns q \<and>
   q_return_type (snd (execute q limit offset)) = q_return_type q \<and>
   execute_statement (snd (execute q limit offset)) limit' offset'
     = execute_statement q limit' offset'"
proof -
  obtain d where "snd (execute q limit offset) = q\<lparr>q_db := d\<rparr>"
    using execute_frame by blast
  then show ?thesis
    by (simp add: execute_statement_def)
qed

theorem C9_execute_keeps_statement_and_params_witness:
  "q_statement (snd (execute example_query (Some 5) (Some 10))) = example_statement \<and>
   q_params (snd (execute example_query (Some 5) (Some 10))) = [PInt 51] \<and>
   execute_statement (snd (execute example_query (Some 5) (Some 10))) (Some 3) None
     = example_statement @ CHR 0x0A # ''LIMIT 3''"
  using C9_execute_keeps_statement_and_params [of example_query "Some 5" "Some 10" "Some 3" None]
  by (simp add: example_query_fields execute_statement_def str_int_def str_nat_digit digit_char_def)

lemma pool_get_exit_count:
  "pool_get p = Handle conn p' \<Longrightarrow> pool_checked_out (pool_exit p' conn) = pool_checked_out p"
  by (auto simp: pool_get_def pool_exit_def split: list.splits if_splits sum.splits)

lemma pool_get_exit_idle:
  "pool_get p = Handle conn p' \<Longrightarrow> \<not> pool_closing p \<Longrightarrow> conn \<in> set (pool_idle (pool_exit p' conn))"
  by (auto simp: pool_get_def pool_exit_def split: list.splits if_splits sum.splits)

lemma pool_get_exit_reuse:
  "pool_get p = Handle conn p' \<Longrightarrow> \<not> pool_closing p \<Longrightarrow> pool_idle p \<noteq> [] \<Longrightarrow> pool_exit p' conn = p"
  by (auto simp: pool_get_def pool_exit_def split: list.splits if_splits sum.splits)

text \<open>
  C6. When the driver's \<^verbatim>\<open>execute\<close> or \<^verbatim>\<open>fetchall\<close> raises inside the \<^verbatim>\<open>with\<close> block, \<^verbatim>\<open>execute\<close>
  raises that same exception and returns no rows, and the scope exit still hands the
  connection back: the pool counts as many checked-out connections as before the call, the
  connection is idle again unless the pool is shutting down, and a pool that had an idle
  connection is exactly as it was.
\<close>

theorem C6_driver_failure_propagates:
  assumes pool: "q_db q ''pool'' = Some (A_pool p)"
    and checkout: "pool_get p = Handle conn p'"
    and cur: "conn_cursor (pool_dbapi p') conn = Inr cur"
    and fails: "cur_execute (pool_dbapi p') cur (execute_statement q limit offset) (q_params q) = Inl e \<or>
                (\<exists>cur'. cur_execute (pool_dbapi p') cur (execute_statement q limit offset) (q_params q) = Inr cur' \<and>
                        cur_fetchall (pool_dbapi p') cur' = Inl e)"
  shows "fst (execute q limit offset) = Some (Inl e) \<and>
         q_db (snd (execute q limit offset)) ''pool'' = Some (A_pool (pool_exit p' conn)) \<and>
         pool_checked_out (pool_exit p' conn) = pool_checked_out p \<and>
         (\<not> pool_closing p \<longrightarrow> conn \<in> set (pool_idle (pool_exit p' conn))) \<and>
         (\<not> pool_closing p \<and> pool_idle p \<noteq> [] \<longrightarrow> pool_exit p' conn = p)"
proof -
  have body: "run_cursor (pool_dbapi p') conn (execute_statement q limit offset) (q_params q) = Inl e"
    using cur fails by (auto simp: run_cursor_def)
  have "execute q limit offset =
          (Some (Inl e), q\<lparr>q_db := (q_db q)(''pool'' \<mapsto> A_pool (pool_exit p' conn))\<rparr>)"
    using pool checkout body by (simp add: execute_def getattr_def Let_def)
  then show ?thesis
    using checkout pool_get_exit_count pool_get_exit_idle pool_get_exit_reuse by simp
qed

theorem C6_driver_failure_propagates_witness:
  "fst (execute failing_query None None) = Some (Inl (DriverError example_statement)) \<and>
   q_db (snd (execute failing_query None None)) ''pool'' = Some (A_pool failing_pool)"
proof -
  let ?p' = "failing_pool\<lparr>pool_idle := [], pool_checked_out := Suc 0\<rparr>"
  have pool: "q_db failing_query ''pool'' = Some (A_pool failing_pool)"
    by (simp add: failing_query_fields failing_db_pool)
  have checkout: "pool_get failing_pool = Handle 0 ?p'"
    by (simp add: pool_get_def failing_pool_def)
  have cur: "conn_cursor (pool_dbapi ?p') 0 = Inr (Cursor 0 [])"
    by (simp add: failing_pool_def failing_dbapi_def echo_dbapi_def)
  have fails: "cur_execute (pool_dbapi ?p') (Cursor 0 []) (execute_statement failing_query None None)
                 (q_params failing_query) = Inl (DriverError example_statement) \<or>
               (\<exists>cur'. cur_execute (pool_dbapi ?p') (Cursor 0 []) (execute_statement failing_query None None)
                         (q_params failing_query) = Inr cur' \<and>
                       cur_fetchall (pool_dbapi ?p') cur' = Inl (DriverError example_statement))"
    by (simp add: failing_pool_def failing_dbapi_def echo_dbapi_def execute_statement_def
        failing_query_fields)
  have idle: "\<not> pool_closing failing_pool \<and> pool_idle failing_pool \<noteq> []"
    by (simp add: failing_pool_def)
  show ?thesis
    using C6_driver_failure_propagates [OF pool checkout cur fails] idle by simp
qed

section \<open>Rebinding a named parameter\<close>









section \<open>HAVING requires GROUP BY\<close>

lemma apply_calls_group_by:
  "\<forall>es. Group_by es \<notin> set cs \<Longrightarrow> qb_group_by (foldl apply_call b cs) = qb_group_by b"
proof (induction cs arbitrary: b)
  case Nil
  then show ?case by simp
next
  case (Cons c cs)
  then show ?case by (cases c) auto
qed

lemma apply_call_having_mono:
  "qb_having b \<noteq> [] \<Longrightarrow> qb_having (apply_call b c) \<noteq> []"
  by (cases c) auto

lemma apply_calls_having_mono:
  "qb_having b \<noteq> [] \<Longrightarrow> qb_having (foldl apply_call b cs) \<noteq> []"
  by (induction cs arbitrary: b) (auto simp: apply_call_having_mono)

lemma apply_calls_having:
  "Having e \<in> set cs \<Longrightarrow> qb_having (foldl apply_call b cs) \<noteq> []"
proof (induction cs arbitrary: b)
  case Nil
  then show ?case by simp
next
  case (Cons c cs)
  show ?case
  proof (cases "c = Having e")
    case True
    then show ?thesis by (simp add: apply_calls_having_mono)
  next
    case False
    with Cons show ?thesis by simp
  qed
qed

text \<open>
  C5. A builder that received a \<^verbatim>\<open>having\<close> call and no \<^verbatim>\<open>group_by\<close> call fails at \<^verbatim>\<open>get()\<close>:
  no query is produced, so nothing can fail later at \<^verbatim>\<open>execute()\<close>; when the FROM item can
  be determined, the error is the one about HAVING.
\<close>

theorem C5_having_without_group_by_fails:
  assumes "Having e \<in> set cs" and "\<forall>es. Group_by es \<notin> set cs"
  shows "isl (get xid render self_id (apply_calls (QueryBuilder_init db) cs)) \<and>
         (\<forall>t. derive_from (apply_calls (QueryBuilder_init db) cs) = Inr t \<longrightarrow>
            get xid render self_id (apply_calls (QueryBuilder_init db) cs)
              = Inl (QueryError ''HAVING requires GROUP BY.''))"
proof -
  let ?b = "apply_calls (QueryBuilder_init db) cs"
  have h: "qb_having ?b \<noteq> []"
    using assms(1) by (simp add: apply_calls_def apply_calls_having)
  have g: "qb_group_by ?b = []"
    using assms(2) by (simp add: apply_calls_def apply_calls_group_by QueryBuilder_init_def)
  show ?thesis
    using h g by (auto simp: get_def split: sum.splits)
qed

theorem C5_having_without_group_by_fails_witness:
  "get example_xid no_render 1 (apply_calls (QueryBuilder_init (Some example_db)) having_calls)
     = Inl (QueryError ''HAVING requires GROUP BY.'')"
proof -
  let ?e = "OtherExpr ''_'' ''(COUNT(Track.TrackId) > ?)'' ''(COUNT(TrackId) > ?)'' [TableRef ''Track'']"
  have having: "Having ?e \<in> set having_calls"
    by (simp add: having_calls_def)
  have group: "\<forall>es. Group_by es \<notin> set having_calls"
    by (simp add: having_calls_def)
  have from_item: "derive_from (apply_calls (QueryBuilder_init (Some example_db)) having_calls)
                     = Inr (TableRef ''Track'')"
    by (simp add: derive_from_def apply_calls_def QueryBuilder_init_def having_calls_def)
  show ?thesis
    using C5_having_without_group_by_fails [OF having group, of example_xid no_render 1 "Some example_db"] from_item
    by simp
qed

end
